theory Spec2Isabelle
  imports Main "HOL-Library.Char_ord" "HOL-Library.List_Lexorder" "HOL-Library.Multiset"
begin

section \<open>Errors, digests and descriptors\<close>

text \<open>
  The storage core reports failures as Go \<^verbatim>\<open>error\<close> values; the model returns them as
  values of one datatype. A function that returns \<^verbatim>\<open>(T, error)\<close> becomes a function into
  \<open>error + T\<close> (\<open>Inl\<close> the error); one that returns only \<^verbatim>\<open>error\<close> and writes to the
  backend returns \<open>error option \<times> driver\<close> (\<open>None\<close> is \<^verbatim>\<open>nil\<close>).
\<close>

text \<open>
  Modelled from the spec: the error taxonomy of the storage driver contract, section 4.1
  (\<^verbatim>\<open>NotFound\<close>, \<^verbatim>\<open>InvalidPath\<close>, \<^verbatim>\<open>Unsupported\<close>, \<^verbatim>\<open>TransientIO\<close>, \<^verbatim>\<open>PermanentIO\<close>); the package
  \<^verbatim>\<open>storagedriver\<close> is not among the sources. \<^verbatim>\<open>NotFound\<close> is the constructor
  \<open>PathNotFoundError\<close> of \<open>error\<close> below, the one the sources switch on.
\<close>

datatype driver_fault = InvalidPath | Unsupported | TransientIO | PermanentIO

datatype error =
    PathNotFoundError string
  | StorageError driver_fault string
  | ErrDigestInvalidFormat
  | ErrRepositoryUnknown string
  | ErrTagUnknown string
  | ErrBlobUnknown
  | errorString string

type_synonym digest = string

text \<open>
  Modelled from the spec: the descriptor of section 3,
  \<^verbatim>\<open>{ mediaType: string, digest: Digest, size: int64, urls?: []string }\<close>; the declaration of
  \<^verbatim>\<open>distribution.Descriptor\<close> is not among the sources. \<open>Descriptor_zero\<close> is the Go
  value \<^verbatim>\<open>distribution.Descriptor{}\<close>.
\<close>

record Descriptor =
  MediaType :: string
  Digest :: digest
  Size :: int
  URLs :: "string list"

definition Descriptor_zero :: Descriptor where
  "Descriptor_zero = \<lparr>MediaType = [], Digest = [], Size = 0, URLs = []\<rparr>"

definition is_lower_alnum :: "char \<Rightarrow> bool" where
  "is_lower_alnum c = (c \<in> set ''abcdefghijklmnopqrstuvwxyz0123456789'')"

definition is_lower_hex :: "char \<Rightarrow> bool" where
  "is_lower_hex c = (c \<in> set ''0123456789abcdef'')"

definition digest_algorithm :: "digest \<Rightarrow> string" where
  "digest_algorithm d = takeWhile (\<lambda>c. c \<noteq> CHR '':'') d"

definition digest_hex :: "digest \<Rightarrow> string" where
  "digest_hex d = drop 1 (dropWhile (\<lambda>c. c \<noteq> CHR '':'') d)"

text \<open>
  Modelled from the spec: a digest is \<^verbatim>\<open><algorithm>:<hex>\<close> (section 3); the digest package
  is not among the sources. \<open>digest_Parse\<close> accepts exactly the strings of that form, with
  a non-empty lower-case alphanumeric algorithm and a non-empty lower-case hex part.
\<close>

definition digest_Parse :: "string \<Rightarrow> error + digest" where
  "digest_Parse s =
     (if dropWhile (\<lambda>c. c \<noteq> CHR '':'') s \<noteq> []
         \<and> digest_algorithm s \<noteq> [] \<and> list_all is_lower_alnum (digest_algorithm s)
         \<and> digest_hex s \<noteq> [] \<and> list_all is_lower_hex (digest_hex s)
      then Inr s else Inl ErrDigestInvalidFormat)"

section \<open>Path mapper\<close>

datatype pathSpec =
    manifestRevisionLinkPathSpec string digest
  | layerLinkPathSpec string digest
  | manifestRevisionsPathSpec string
  | layersPathSpec string
  | manifestTagsPathSpec string
  | manifestTagPathSpec string string
  | manifestTagCurrentPathSpec string string
  | manifestTagIndexPathSpec string string
  | manifestTagIndexEntryLinkPathSpec string string digest

definition repositoriesRoot :: "string \<Rightarrow> string" where
  "repositoriesRoot name = ''/docker/registry/v2/repositories/'' @ name"

definition digestPathComponents :: "digest \<Rightarrow> error + string" where
  "digestPathComponents dgst =
     (case digest_Parse dgst of
        Inl err \<Rightarrow> Inl err
      | Inr d \<Rightarrow> Inr (digest_algorithm d @ ''/'' @ digest_hex d))"

text \<open>
  Modelled from the spec: \<^verbatim>\<open>pathFor\<close> (section 4.2) with the on-disk layout of section 6;
  the path mapper is not among the sources, which only call it. A spec with a digest
  that is not of the form \<^verbatim>\<open><algorithm>:<hex>\<close> is an invalid path spec and is surfaced
  as an error (section 7).
\<close>

fun pathFor :: "pathSpec \<Rightarrow> error + string" where
  "pathFor (manifestRevisionLinkPathSpec name revision) =
     (case digestPathComponents revision of
        Inl err \<Rightarrow> Inl err
      | Inr c \<Rightarrow> Inr (repositoriesRoot name @ ''/_manifests/revisions/'' @ c @ ''/link''))"
| "pathFor (layerLinkPathSpec name dgst) =
     (case digestPathComponents dgst of
        Inl err \<Rightarrow> Inl err
      | Inr c \<Rightarrow> Inr (repositoriesRoot name @ ''/_layers/'' @ c @ ''/link''))"
| "pathFor (manifestRevisionsPathSpec name) =
     Inr (repositoriesRoot name @ ''/_manifests/revisions'')"
| "pathFor (layersPathSpec name) =
     Inr (repositoriesRoot name @ ''/_layers'')"
| "pathFor (manifestTagsPathSpec name) =
     Inr (repositoriesRoot name @ ''/_manifests/tags'')"
| "pathFor (manifestTagPathSpec name tag) =
     Inr (repositoriesRoot name @ ''/_manifests/tags/'' @ tag)"
| "pathFor (manifestTagCurrentPathSpec name tag) =
     Inr (repositoriesRoot name @ ''/_manifests/tags/'' @ tag @ ''/current/link'')"
| "pathFor (manifestTagIndexPathSpec name tag) =
     Inr (repositoriesRoot name @ ''/_manifests/tags/'' @ tag @ ''/index'')"
| "pathFor (manifestTagIndexEntryLinkPathSpec name tag revision) =
     (case digestPathComponents revision of
        Inl err \<Rightarrow> Inl err
      | Inr c \<Rightarrow>
          Inr (repositoriesRoot name @ ''/_manifests/tags/'' @ tag @ ''/index/'' @ c @ ''/link''))"

section \<open>Storage driver and blob store links\<close>

text \<open>
  Modelled from the spec: the storage driver of section 4.1, a flat store keyed by paths;
  the drivers are not among the sources. \<open>files\<close> maps a path to its content (the first
  entry for a path counts), \<open>dirs\<close> lists prefixes that exist although nothing is stored
  below them, \<open>faults\<close> names the paths on which the backend fails and with which error,
  and \<open>journal\<close> records the successful \<^verbatim>\<open>PutContent\<close> calls, oldest first.
\<close>

record driver =
  files :: "(string \<times> string) list"
  dirs :: "string list"
  faults :: "(string \<times> driver_fault) list"
  journal :: "(string \<times> string) list"

definition GetContent :: "driver \<Rightarrow> string \<Rightarrow> error + string" where
  "GetContent s path =
     (case map_of (faults s) path of
        Some f \<Rightarrow> Inl (StorageError f path)
      | None \<Rightarrow>
          (case map_of (files s) path of
             None \<Rightarrow> Inl (PathNotFoundError path)
           | Some content \<Rightarrow> Inr content))"

definition PutContent :: "driver \<Rightarrow> string \<Rightarrow> string \<Rightarrow> error option \<times> driver" where
  "PutContent s path content =
     (case map_of (faults s) path of
        Some f \<Rightarrow> (Some (StorageError f path), s)
      | None \<Rightarrow>
          (None, s\<lparr>files := (path, content) # filter (\<lambda>kv. fst kv \<noteq> path) (files s),
                    journal := journal s @ [(path, content)]\<rparr>))"

definition children :: "string list \<Rightarrow> string \<Rightarrow> string list" where
  "children keys path =
     remdups (map (\<lambda>k. path @ ''/'' @ takeWhile (\<lambda>c. c \<noteq> CHR ''/'') (drop (length path + 1) k))
                  (filter (\<lambda>k. take (length path + 1) k = path @ ''/'') keys))"

definition driver_List :: "driver \<Rightarrow> string \<Rightarrow> error + string list" where
  "driver_List s path =
     (case map_of (faults s) path of
        Some f \<Rightarrow> Inl (StorageError f path)
      | None \<Rightarrow>
          (if children (map fst (files s)) path = [] \<and> path \<notin> set (dirs s)
           then Inl (PathNotFoundError path)
           else Inr (children (map fst (files s)) path)))"

text \<open>
  Modelled from the spec: a link is a backend object whose payload is a single digest
  string; \<^verbatim>\<open>blobStore.link\<close> and \<^verbatim>\<open>blobStore.readlink\<close> are called by the sources but are not
  among them. Reading tolerates one trailing newline (section 6).
\<close>

definition link :: "string \<Rightarrow> digest \<Rightarrow> driver \<Rightarrow> error option \<times> driver" where
  "link path dgst s = PutContent s path dgst"

definition trimNewline :: "string \<Rightarrow> string" where
  "trimNewline content =
     (if content \<noteq> [] \<and> last content = CHR 0x0A then butlast content else content)"

definition readlink :: "string \<Rightarrow> driver \<Rightarrow> error + digest" where
  "readlink path s =
     (case GetContent s path of
        Inl err \<Rightarrow> Inl err
      | Inr content \<Rightarrow> digest_Parse (trimNewline content))"

section \<open>Tag store\<close>

text \<open>
  Of the registry a repository belongs to, the flags the sources read: \<^verbatim>\<open>deleteEnabled\<close>,
  \<^verbatim>\<open>resumableDigestEnabled\<close> and the \<^verbatim>\<open>removeParentsOnDelete\<close> of its blob store. \<open>Name\<close>
  is the name of the repository (\<^verbatim>\<open>repository.Named().Name()\<close>).
\<close>

record registry =
  deleteEnabled :: bool
  removeParentsOnDelete :: bool
  resumableDigestEnabled :: bool

record repository =
  Name :: string
  repo_registry :: registry

text \<open>
  \<^verbatim>\<open>TagStore\<close>: the field \<^verbatim>\<open>blobStore\<close> is a pointer to the blob store over the shared
  backend; the model passes the backend state \<open>driver\<close> to every method instead.
\<close>

record TagStore =
  repository :: repository
  lookupConcurrencyFactor :: int

text \<open>
  \<^verbatim>\<open>strconv.Atoi\<close>: an optional sign, then one or more decimal digits, the value within the
  64-bit range of \<^verbatim>\<open>int\<close>; anything else is an error (\<open>None\<close>).
\<close>

definition is_digit :: "char \<Rightarrow> bool" where
  "is_digit c = (c \<in> set ''0123456789'')"

definition digits_value :: "string \<Rightarrow> int" where
  "digits_value ds = foldl (\<lambda>acc c. 10 * acc + (of_char c - 48)) 0 ds"

definition Atoi :: "string \<Rightarrow> int option" where
  "Atoi s =
     (let neg = (s \<noteq> [] \<and> hd s = CHR ''-'');
          ds = (if s \<noteq> [] \<and> (hd s = CHR ''-'' \<or> hd s = CHR ''+'') then tl s else s);
          v = (if neg then - digits_value ds else digits_value ds)
      in if ds = [] \<or> \<not> list_all is_digit ds then None
         else if v < - (2 ^ 63) \<or> 2 ^ 63 - 1 < v then None
         else Some v)"

text \<open>
  \<^verbatim>\<open>NewStore\<close>; \<open>env\<close> is the value \<^verbatim>\<open>os.Getenv("STORAGE_TAGSTORE_LOOKUP_CONCURRENCY")\<close>
  returns (the empty string when the variable is not set).
\<close>

definition NewStore :: "string \<Rightarrow> repository \<Rightarrow> TagStore" where
  "NewStore env repo =
     \<lparr>repository = repo,
      lookupConcurrencyFactor = (case Atoi env of None \<Rightarrow> 64 | Some n \<Rightarrow> n)\<rparr>"

text \<open>\<^verbatim>\<open>path.Split\<close>: splits immediately after the final slash.\<close>

definition path_Split :: "string \<Rightarrow> string \<times> string" where
  "path_Split p =
     (rev (dropWhile (\<lambda>c. c \<noteq> CHR ''/'') (rev p)), rev (takeWhile (\<lambda>c. c \<noteq> CHR ''/'') (rev p)))"

definition TagStore_All :: "TagStore \<Rightarrow> driver \<Rightarrow> error + string list" where
  "TagStore_All ts s =
     (case pathFor (manifestTagsPathSpec (Name (repository ts))) of
        Inl err \<Rightarrow> Inl err
      | Inr pathSpec \<Rightarrow>
          (case driver_List s pathSpec of
             Inl (PathNotFoundError p) \<Rightarrow> Inl (ErrRepositoryUnknown (Name (repository ts)))
           | Inl err \<Rightarrow> Inl err
           | Inr entries \<Rightarrow> Inr (sort (map (\<lambda>entry. snd (path_Split entry)) entries))))"

text \<open>
  The linked blob store of the tag store file: \<^verbatim>\<open>linkPath\<close> is its one link path function.
\<close>

record linkedBlobStore =
  lbs_repository :: repository
  linkPath :: "string \<Rightarrow> digest \<Rightarrow> error + string"

definition TagStore_linkedBlobStore :: "TagStore \<Rightarrow> string \<Rightarrow> linkedBlobStore" where
  "TagStore_linkedBlobStore ts tag =
     \<lparr>lbs_repository = repository ts,
      linkPath = (\<lambda>name dgst. pathFor (manifestTagIndexEntryLinkPathSpec name tag dgst))\<rparr>"

text \<open>
  Modelled from the spec: \<^verbatim>\<open>linkedBlobStore.linkBlob\<close> writes (or overwrites) the repository
  link of the descriptor's digest at the store's link path (section 4.4); the function
  is called by \<^verbatim>\<open>Tag\<close> but is not among the sources.
\<close>

definition linkBlob :: "linkedBlobStore \<Rightarrow> Descriptor \<Rightarrow> driver \<Rightarrow> error option \<times> driver" where
  "linkBlob lbs canonical s =
     (case linkPath lbs (Name (lbs_repository lbs)) (Digest canonical) of
        Inl err \<Rightarrow> (Some err, s)
      | Inr blobLinkPath \<Rightarrow> link blobLinkPath (Digest canonical) s)"

definition TagStore_Tag :: "TagStore \<Rightarrow> string \<Rightarrow> Descriptor \<Rightarrow> driver \<Rightarrow> error option \<times> driver" where
  "TagStore_Tag ts tag desc s =
     (case pathFor (manifestTagCurrentPathSpec (Name (repository ts)) tag) of
        Inl err \<Rightarrow> (Some err, s)
      | Inr currentPath \<Rightarrow>
          (case linkBlob (TagStore_linkedBlobStore ts tag) desc s of
             (Some err, s') \<Rightarrow> (Some err, s')
           | (None, s') \<Rightarrow> link currentPath (Digest desc) s'))"

text \<open>
  The path of a tag's current link, as every method of the tag store computes it; the
  empty path where \<^verbatim>\<open>pathFor\<close> fails.
\<close>

definition currentLinkPath :: "TagStore \<Rightarrow> string \<Rightarrow> string" where
  "currentLinkPath ts tag =
     (case pathFor (manifestTagCurrentPathSpec (Name (repository ts)) tag) of
        Inl err \<Rightarrow> []
      | Inr p \<Rightarrow> p)"

definition TagStore_Get :: "TagStore \<Rightarrow> string \<Rightarrow> driver \<Rightarrow> error + Descriptor" where
  "TagStore_Get ts tag s =
     (case pathFor (manifestTagCurrentPathSpec (Name (repository ts)) tag) of
        Inl err \<Rightarrow> Inl err
      | Inr currentPath \<Rightarrow>
          (case readlink currentPath s of
             Inl (PathNotFoundError p) \<Rightarrow> Inl (ErrTagUnknown tag)
           | Inl err \<Rightarrow> Inl err
           | Inr revision \<Rightarrow> Inr (Descriptor_zero\<lparr>Digest := revision\<rparr>)))"

text \<open>
  A run of further \<^verbatim>\<open>Tag\<close> calls through the tag store, each on the backend the call
  before it left, whether it succeeded or failed: the writers that may come between a
  \<^verbatim>\<open>Tag\<close> and a later read.
\<close>

fun TagStore_Tags :: "TagStore \<Rightarrow> (string \<times> Descriptor) list \<Rightarrow> driver \<Rightarrow> driver" where
  "TagStore_Tags ts [] s = s"
| "TagStore_Tags ts ((tag, desc) # calls) s =
     TagStore_Tags ts calls (snd (TagStore_Tag ts tag desc s))"

text \<open>
  The function each goroutine of \<^verbatim>\<open>Lookup\<close> runs for one tag: \<open>Inl err\<close> when it returns
  \<open>err\<close>, \<open>Inr (Some tag)\<close> when it sends the tag on \<^verbatim>\<open>outputChan\<close>, \<open>Inr None\<close> when it
  returns \<^verbatim>\<open>nil\<close> without sending. The error of \<^verbatim>\<open>pathFor\<close> is dropped there, which leaves
  the empty path.
\<close>

definition lookupTag :: "TagStore \<Rightarrow> Descriptor \<Rightarrow> driver \<Rightarrow> string \<Rightarrow> error + string option" where
  "lookupTag ts desc s tag =
     (let tagLinkPath =
            (case pathFor (manifestTagCurrentPathSpec (Name (repository ts)) tag) of
               Inl err \<Rightarrow> []
             | Inr p \<Rightarrow> p)
      in case readlink tagLinkPath s of
           Inl (PathNotFoundError p) \<Rightarrow> Inr None
         | Inl err \<Rightarrow> Inl err
         | Inr tagDigest \<Rightarrow> (if tagDigest = Digest desc then Inr (Some tag) else Inr None))"

text \<open>
  \<^verbatim>\<open>group.Wait\<close> gives the first error of the goroutines, the loop over \<^verbatim>\<open>outputChan\<close>
  collects what they sent. The goroutines only read the backend; the model runs them in
  the order of \<^verbatim>\<open>allTags\<close>, so the order of the result and the choice among several
  errors are those of that order.
\<close>

fun groupWait :: "(error + string option) list \<Rightarrow> error option" where
  "groupWait [] = None"
| "groupWait (Inl err # rs) = Some err"
| "groupWait (Inr out # rs) = groupWait rs"

fun received :: "(error + string option) list \<Rightarrow> string list" where
  "received [] = []"
| "received (Inr (Some tag) # rs) = tag # received rs"
| "received (r # rs) = received rs"

text \<open>
  \<^verbatim>\<open>Lookup\<close>. The result \<open>None\<close> means that the call never returns:
  \<^verbatim>\<open>group.SetLimit(0)\<close> makes the errgroup admit no goroutine, so the first \<^verbatim>\<open>group.Go\<close> blocks
  for ever, \<^verbatim>\<open>outputChan\<close> is never closed and the receiving loop never ends. A negative
  limit is no limit; a positive limit only bounds the parallelism.
\<close>

definition lookupRun :: "TagStore \<Rightarrow> Descriptor \<Rightarrow> driver \<Rightarrow> string list \<Rightarrow> (error + string list) option" where
  "lookupRun ts desc s allTags =
     (if lookupConcurrencyFactor ts = 0 \<and> allTags \<noteq> [] then None
      else (case groupWait (map (lookupTag ts desc s) allTags) of
              Some err \<Rightarrow> Some (Inl err)
            | None \<Rightarrow> Some (Inr (received (map (lookupTag ts desc s) allTags)))))"

definition TagStore_Lookup :: "TagStore \<Rightarrow> Descriptor \<Rightarrow> driver \<Rightarrow> (error + string list) option" where
  "TagStore_Lookup ts desc s =
     (case TagStore_All ts s of
        Inr allTags \<Rightarrow> lookupRun ts desc s allTags
      | Inl (ErrRepositoryUnknown n) \<Rightarrow> lookupRun ts desc s []
      | Inl err \<Rightarrow> Some (Inl err))"

section \<open>Manifest service of a repository\<close>

type_synonym linkPathFunc = "string \<Rightarrow> digest \<Rightarrow> error + string"

type_synonym blobsRootPathFunc = "string \<Rightarrow> error + string"

text \<open>
  Modelled from the spec: the link path functions and root path functions that
  \<^verbatim>\<open>repository.Manifests\<close> lists are declared outside the sources; each is \<^verbatim>\<open>pathFor\<close> at
  the path spec of its role (sections 4.2 and 6): manifest revision links under
  \<^verbatim>\<open>_manifests/revisions\<close>, layer links under \<^verbatim>\<open>_layers\<close>.
\<close>

definition manifestRevisionLinkPath :: linkPathFunc where
  "manifestRevisionLinkPath name dgst = pathFor (manifestRevisionLinkPathSpec name dgst)"

definition blobLinkPath :: linkPathFunc where
  "blobLinkPath name dgst = pathFor (layerLinkPathSpec name dgst)"

definition manifestRevisionsPath :: blobsRootPathFunc where
  "manifestRevisionsPath name = pathFor (manifestRevisionsPathSpec name)"

definition blobsRootPath :: blobsRootPathFunc where
  "blobsRootPath name = pathFor (layersPathSpec name)"

text \<open>
  The structures \<^verbatim>\<open>repository.Manifests\<close> builds. In this file of the sources a linked
  blob store carries a list of link path functions (\<^verbatim>\<open>linkPathFns\<close>), where the one of the
  tag store file carries a single \<^verbatim>\<open>linkPath\<close>; the two are kept apart as
  \<open>repoLinkedBlobStore\<close> and \<open>linkedBlobStore\<close>. The context and the pointer to the
  global blob store are left out: the backend state is passed to the operations.
\<close>

record linkedBlobStatter =
  lbst_repository :: repository
  lbst_linkPathFns :: "linkPathFunc list"
  lbst_removeParentsOnDelete :: bool

record repoLinkedBlobStore =
  rlbs_repository :: repository
  rlbs_deleteEnabled :: bool
  blobAccessController :: linkedBlobStatter
  linkPathFns :: "linkPathFunc list"
  blobsRootPathFns :: "blobsRootPathFunc list"

record signatureStore =
  sigs_repository :: repository

record signedManifestHandler =
  s1_repository :: repository
  s1_blobStore :: repoLinkedBlobStore
  signatures :: signatureStore

record schema2ManifestHandler =
  s2_repository :: repository
  s2_blobStore :: repoLinkedBlobStore

record manifestListHandler =
  ml_repository :: repository
  ml_blobStore :: repoLinkedBlobStore

record manifestStore =
  ms_repository :: repository
  ms_blobStore :: repoLinkedBlobStore
  schema1Handler :: signedManifestHandler
  schema2Handler :: schema2ManifestHandler
  manifestListHandler :: manifestListHandler

text \<open>
  A \<^verbatim>\<open>ManifestServiceOption\<close> is an interface value whose \<^verbatim>\<open>Apply\<close> may change the manifest
  store and may fail; the loop stops at the first failure.
\<close>

type_synonym ManifestServiceOption = "manifestStore \<Rightarrow> error option \<times> manifestStore"

fun applyOptions :: "ManifestServiceOption list \<Rightarrow> manifestStore \<Rightarrow> error + manifestStore" where
  "applyOptions [] ms = Inr ms"
| "applyOptions (option # options) ms =
     (case option ms of
        (Some err, ms') \<Rightarrow> Inl err
      | (None, ms') \<Rightarrow> applyOptions options ms')"

definition repository_Manifests ::
    "repository \<Rightarrow> ManifestServiceOption list \<Rightarrow> error + manifestStore" where
  "repository_Manifests repo options =
     (let manifestLinkPathFns = [manifestRevisionLinkPath, blobLinkPath];
          manifestRootPathFns = [manifestRevisionsPath, blobsRootPath];
          blobStore =
            \<lparr>rlbs_repository = repo,
             rlbs_deleteEnabled = deleteEnabled (repo_registry repo),
             blobAccessController =
               \<lparr>lbst_repository = repo,
                lbst_linkPathFns = manifestLinkPathFns,
                lbst_removeParentsOnDelete = removeParentsOnDelete (repo_registry repo)\<rparr>,
             linkPathFns = manifestLinkPathFns,
             blobsRootPathFns = manifestRootPathFns\<rparr>;
          ms =
            \<lparr>ms_repository = repo,
             ms_blobStore = blobStore,
             schema1Handler =
               \<lparr>s1_repository = repo, s1_blobStore = blobStore,
                signatures = \<lparr>sigs_repository = repo\<rparr>\<rparr>,
             schema2Handler = \<lparr>s2_repository = repo, s2_blobStore = blobStore\<rparr>,
             manifestListHandler = \<lparr>ml_repository = repo, ml_blobStore = blobStore\<rparr>\<rparr>
      in applyOptions options ms)"

text \<open>
  Modelled from the spec: how a linked blob statter resolves the link of a digest
  (section 4.4): it reads the link under the repository at each of its link paths in
  turn, goes on to the next path when the link is absent, and reports
  \<^verbatim>\<open>ErrBlobUnknown\<close> when no path has the link. \<^verbatim>\<open>linkedBlobStatter.Stat\<close> is not among the
  sources.
\<close>

fun resolveLink :: "linkPathFunc list \<Rightarrow> string \<Rightarrow> digest \<Rightarrow> driver \<Rightarrow> error + digest" where
  "resolveLink [] name dgst s = Inl ErrBlobUnknown"
| "resolveLink (linkPathFn # fns) name dgst s =
     (case linkPathFn name dgst of
        Inl err \<Rightarrow> Inl err
      | Inr path \<Rightarrow>
          (case readlink path s of
             Inr target \<Rightarrow> Inr target
           | Inl (PathNotFoundError p) \<Rightarrow> resolveLink fns name dgst s
           | Inl err \<Rightarrow> Inl err))"

definition linkedBlobStatter_resolve :: "linkedBlobStatter \<Rightarrow> digest \<Rightarrow> driver \<Rightarrow> error + digest" where
  "linkedBlobStatter_resolve lbs dgst s =
     resolveLink (lbst_linkPathFns lbs) (Name (lbst_repository lbs)) dgst s"

text \<open>
  Modelled from the spec: writes always use the canonical path for the role
  (section 4.4), the link path function listed first; a store without any link path
  function cannot write. The function is not among the sources.
\<close>

definition repoLinkedBlobStore_linkBlob ::
    "repoLinkedBlobStore \<Rightarrow> Descriptor \<Rightarrow> driver \<Rightarrow> error option \<times> driver" where
  "repoLinkedBlobStore_linkBlob lbs canonical s =
     (case linkPathFns lbs of
        [] \<Rightarrow> (Some (errorString ''no link path''), s)
      | linkPathFn # fns \<Rightarrow>
          (case linkPathFn (Name (rlbs_repository lbs)) (Digest canonical) of
             Inl err \<Rightarrow> (Some err, s)
           | Inr path \<Rightarrow> link path (Digest canonical) s))"

section \<open>Proxy manifest store\<close>

text \<open>\<^verbatim>\<open>time.Duration\<close> counts nanoseconds in 64 bits; ten minutes are far below the bound.\<close>

type_synonym Duration = int

definition Nanosecond :: Duration where
  "Nanosecond = 1"

definition Microsecond :: Duration where
  "Microsecond = 1000 * Nanosecond"

definition Millisecond :: Duration where
  "Millisecond = 1000 * Microsecond"

definition Second :: Duration where
  "Second = 1000 * Millisecond"

definition Minute :: Duration where
  "Minute = 60 * Second"

definition repositoryTTL :: Duration where
  "repositoryTTL = 10 * Minute"

text \<open>
  \<^verbatim>\<open>distribution.ManifestService\<close> is an interface; a value of it is the record of its
  methods over the state \<open>'st\<close> of the registry behind it. Reading methods return a
  result, writing methods an error or \<^verbatim>\<open>nil\<close> together with the new state. \<open>'m\<close> is the
  type of signed manifests.
\<close>

record ('m, 'st) ManifestService =
  ms_Exists :: "digest \<Rightarrow> 'st \<Rightarrow> error + bool"
  ms_Get :: "digest \<Rightarrow> 'st \<Rightarrow> error + 'm"
  ms_Put :: "'m \<Rightarrow> 'st \<Rightarrow> error option \<times> 'st"
  ms_Delete :: "digest \<Rightarrow> 'st \<Rightarrow> error option \<times> 'st"
  ms_Tags :: "'st \<Rightarrow> error + string list"
  ms_ExistsByTag :: "string \<Rightarrow> 'st \<Rightarrow> error + bool"
  ms_GetByTag :: "string \<Rightarrow> 'st \<Rightarrow> error + 'm"

text \<open>
  The state the proxy works on: the local registry, the remote registry and the entries
  handed to the scheduler.
\<close>

record ('l, 'r) world =
  local_state :: 'l
  remote_state :: 'r
  scheduled :: "(string \<times> Duration) list"

text \<open>
  Modelled from the spec: \<^verbatim>\<open>scheduler.AddManifest(repo, ttl)\<close> enters the repository with
  its time to live into the scheduler (section 4.9); the scheduler package is not among
  the sources. The entries are kept in the order of the calls; expiry is not modelled.
\<close>

definition AddManifest :: "string \<Rightarrow> Duration \<Rightarrow> ('l, 'r) world \<Rightarrow> ('l, 'r) world" where
  "AddManifest repo ttl w = w\<lparr>scheduled := scheduled w @ [(repo, ttl)]\<rparr>"

text \<open>
  \<^verbatim>\<open>proxyManifestStore\<close>, without its context. \<open>Payload\<close> stands for the method
  \<^verbatim>\<open>SignedManifest.Payload\<close> and \<open>FromBytes\<close> for \<^verbatim>\<open>digest.FromBytes\<close>, both declared outside
  the sources and taken as parameters.
\<close>

record ('m, 'l, 'r) proxyManifestStore =
  localManifests :: "('m, 'l) ManifestService"
  remoteManifests :: "('m, 'r) ManifestService"
  repositoryName :: string
  Payload :: "'m \<Rightarrow> error + string"
  FromBytes :: "string \<Rightarrow> error + digest"

definition proxyManifestStore_Get ::
    "('m, 'l, 'r) proxyManifestStore \<Rightarrow> digest \<Rightarrow> ('l, 'r) world \<Rightarrow> (error + 'm) \<times> ('l, 'r) world" where
  "proxyManifestStore_Get pms dgst w =
     (case ms_Get (localManifests pms) dgst (local_state w) of
        Inr sm \<Rightarrow> (Inr sm, w)
      | Inl err0 \<Rightarrow>
          (case ms_Get (remoteManifests pms) dgst (remote_state w) of
             Inl err \<Rightarrow> (Inl err, w)
           | Inr sm \<Rightarrow>
               (case ms_Put (localManifests pms) sm (local_state w) of
                  (Some err, l') \<Rightarrow> (Inl err, w\<lparr>local_state := l'\<rparr>)
                | (None, l') \<Rightarrow>
                    (Inr sm, AddManifest (repositoryName pms) repositoryTTL (w\<lparr>local_state := l'\<rparr>)))))"

definition proxyManifestStore_Put ::
    "('m, 'l, 'r) proxyManifestStore \<Rightarrow> 'm \<Rightarrow> ('l, 'r) world \<Rightarrow> error option \<times> ('l, 'r) world" where
  "proxyManifestStore_Put pms manifest w = (Some (errorString ''Not supported''), w)"

definition proxyManifestStore_Delete ::
    "('m, 'l, 'r) proxyManifestStore \<Rightarrow> digest \<Rightarrow> ('l, 'r) world \<Rightarrow> error option \<times> ('l, 'r) world" where
  "proxyManifestStore_Delete pms dgst w = (Some (errorString ''Not supported''), w)"

definition proxyManifestStore_GetByTag ::
    "('m, 'l, 'r) proxyManifestStore \<Rightarrow> string \<Rightarrow> ('l, 'r) world \<Rightarrow> (error + 'm) \<times> ('l, 'r) world" where
  "proxyManifestStore_GetByTag pms tag w =
     (case ms_GetByTag (remoteManifests pms) tag (remote_state w) of
        Inl err \<Rightarrow> (Inl err, w)
      | Inr sm \<Rightarrow>
          (case Payload pms sm of
             Inl err \<Rightarrow> (Inl err, w)
           | Inr payload \<Rightarrow>
               (case FromBytes pms payload of
                  Inl err \<Rightarrow> (Inl err, w)
                | Inr digestFromRemote \<Rightarrow>
                    (case ms_Exists (localManifests pms) digestFromRemote (local_state w) of
                       Inl err \<Rightarrow> (Inl err, w)
                     | Inr remoteManifestExistsLocally \<Rightarrow>
                         (if remoteManifestExistsLocally then (Inr sm, w)
                          else
                            (case ms_Put (localManifests pms) sm (local_state w) of
                               (Some err, l') \<Rightarrow> (Inl err, w\<lparr>local_state := l'\<rparr>)
                             | (None, l') \<Rightarrow>
                                 (Inr sm,
                                  AddManifest (repositoryName pms) repositoryTTL
                                    (w\<lparr>local_state := l'\<rparr>))))))))"

section \<open>Concrete registries\<close>

text \<open>
  The states and stores on which the theorems below are run: a repository \<^verbatim>\<open>app\<close>, tag
  stores built by \<open>NewStore\<close> without the environment variable and with the value
  \<^verbatim>\<open>0\<close>, backends, and a proxy between two in-memory manifest services.
\<close>

definition example_repository :: repository where
  "example_repository =
     \<lparr>Name = ''app'',
      repo_registry =
        \<lparr>deleteEnabled = False, removeParentsOnDelete = False, resumableDigestEnabled = True\<rparr>\<rparr>"

definition example_store :: TagStore where
  "example_store = NewStore [] example_repository"

definition zero_limit_store :: TagStore where
  "zero_limit_store = NewStore ''0'' example_repository"

definition desc_a :: Descriptor where
  "desc_a = \<lparr>MediaType = [], Digest = ''sha256:aa'', Size = 0, URLs = []\<rparr>"

definition desc_b :: Descriptor where
  "desc_b = \<lparr>MediaType = [], Digest = ''sha256:bb'', Size = 0, URLs = []\<rparr>"

definition empty_driver :: driver where
  "empty_driver = \<lparr>files = [], dirs = [], faults = [], journal = []\<rparr>"

definition v1_current :: string where
  "v1_current = ''/docker/registry/v2/repositories/app/_manifests/tags/v1/current/link''"

definition v1_index_a :: string where
  "v1_index_a = ''/docker/registry/v2/repositories/app/_manifests/tags/v1/index/sha256/aa/link''"

definition v1_index_b :: string where
  "v1_index_b = ''/docker/registry/v2/repositories/app/_manifests/tags/v1/index/sha256/bb/link''"

text \<open>The backend after \<^verbatim>\<open>Tag("v1", a)\<close> on the empty backend.\<close>

definition tagged_driver :: driver where
  "tagged_driver =
     \<lparr>files = [(v1_current, ''sha256:aa''), (v1_index_a, ''sha256:aa'')],
      dirs = [], faults = [],
      journal = [(v1_index_a, ''sha256:aa''), (v1_current, ''sha256:aa'')]\<rparr>"

text \<open>
  Two descriptors with full SHA-256 digests (of the empty string and of \<^verbatim>\<open>abc\<close>), the
  links of the first under \<^verbatim>\<open>v1\<close>, and the backend after \<^verbatim>\<open>Tag("v1", e)\<close> on the empty
  backend.
\<close>

definition digest_e :: digest where
  "digest_e = ''sha256:e3b0c44298fc1c149afbf4c8996fb92427ae41e4649b934ca495991b7852b855''"

definition digest_f :: digest where
  "digest_f = ''sha256:ba7816bf8f01cfea414140de5dae2223b00361a396177a9cb410ff61f20015ad''"

definition desc_e :: Descriptor where
  "desc_e = \<lparr>MediaType = [], Digest = digest_e, Size = 0, URLs = []\<rparr>"

definition desc_f :: Descriptor where
  "desc_f = \<lparr>MediaType = [], Digest = digest_f, Size = 0, URLs = []\<rparr>"

definition v1_index_e :: string where
  "v1_index_e =
     ''/docker/registry/v2/repositories/app/_manifests/tags/v1/index/sha256/''
       @ ''e3b0c44298fc1c149afbf4c8996fb92427ae41e4649b934ca495991b7852b855/link''"

definition tagged_e_driver :: driver where
  "tagged_e_driver =
     \<lparr>files = [(v1_current, digest_e), (v1_index_e, digest_e)],
      dirs = [], faults = [],
      journal = [(v1_index_e, digest_e), (v1_current, digest_e)]\<rparr>"

text \<open>The same backend when it cannot write the history link of \<^verbatim>\<open>b\<close> under \<^verbatim>\<open>v1\<close>.\<close>

definition faulty_driver :: driver where
  "faulty_driver = tagged_driver\<lparr>faults := [(v1_index_b, PermanentIO)]\<rparr>"

text \<open>
  A backend with three tags, stored in no particular order: \<^verbatim>\<open>v2\<close> and \<^verbatim>\<open>v1\<close> point to
  \<^verbatim>\<open>a\<close>, \<^verbatim>\<open>latest\<close> is a tag directory whose current link is gone.
\<close>

definition three_tags_driver :: driver where
  "three_tags_driver =
     \<lparr>files =
        [(''/docker/registry/v2/repositories/app/_manifests/tags/v2/current/link'', ''sha256:aa''),
         (''/docker/registry/v2/repositories/app/_manifests/tags/latest/index/sha256/bb/link'',
          ''sha256:bb''),
         (''/docker/registry/v2/repositories/app/_manifests/tags/v1/current/link'', ''sha256:aa'')],
      dirs = [], faults = [], journal = []\<rparr>"

text \<open>A backend where a manifest is linked only at the layer link path.\<close>

definition legacy_driver :: driver where
  "legacy_driver =
     \<lparr>files = [(''/docker/registry/v2/repositories/app/_layers/sha256/aa/link'', ''sha256:aa'')],
      dirs = [], faults = [], journal = []\<rparr>"

definition keepOption :: ManifestServiceOption where
  "keepOption ms = (None, ms)"

text \<open>
  An in-memory manifest service over manifests that are their own payload: the state is
  the manifests by digest and the manifests by tag. \<open>toyDigest\<close> stands in for the
  digest of a payload.
\<close>

definition toyDigest :: "string \<Rightarrow> digest" where
  "toyDigest payload = ''sha256:'' @ payload"

definition memoryManifests ::
    "(string, (digest \<times> string) list \<times> (string \<times> string) list) ManifestService" where
  "memoryManifests =
     \<lparr>ms_Exists = (\<lambda>dgst st. Inr (map_of (fst st) dgst \<noteq> None)),
      ms_Get = (\<lambda>dgst st. case map_of (fst st) dgst of
                   None \<Rightarrow> Inl (errorString ''unknown manifest'')
                 | Some m \<Rightarrow> Inr m),
      ms_Put = (\<lambda>m st. (None, ((toyDigest m, m) # fst st, snd st))),
      ms_Delete = (\<lambda>dgst st. (None, (filter (\<lambda>kv. fst kv \<noteq> dgst) (fst st), snd st))),
      ms_Tags = (\<lambda>st. Inr (map fst (snd st))),
      ms_ExistsByTag = (\<lambda>tag st. Inr (map_of (snd st) tag \<noteq> None)),
      ms_GetByTag = (\<lambda>tag st. case map_of (snd st) tag of
                   None \<Rightarrow> Inl (errorString ''unknown manifest'')
                 | Some m \<Rightarrow> Inr m)\<rparr>"

definition example_proxy ::
    "(string, (digest \<times> string) list \<times> (string \<times> string) list,
      (digest \<times> string) list \<times> (string \<times> string) list) proxyManifestStore" where
  "example_proxy =
     \<lparr>localManifests = memoryManifests,
      remoteManifests = memoryManifests,
      repositoryName = ''app'',
      Payload = (\<lambda>m. Inr m),
      FromBytes = (\<lambda>payload. Inr (toyDigest payload))\<rparr>"

text \<open>The same proxy over a local registry that refuses every \<^verbatim>\<open>Put\<close>.\<close>

definition readonly_proxy ::
    "(string, (digest \<times> string) list \<times> (string \<times> string) list,
      (digest \<times> string) list \<times> (string \<times> string) list) proxyManifestStore" where
  "readonly_proxy =
     example_proxy
       \<lparr>localManifests :=
          memoryManifests\<lparr>ms_Put := (\<lambda>m st. (Some (errorString ''read only''), st))\<rparr>\<rparr>"

text \<open>The remote registry holds one manifest, tagged \<^verbatim>\<open>latest\<close>; the local one is empty.\<close>

definition cold_world ::
    "((digest \<times> string) list \<times> (string \<times> string) list,
      (digest \<times> string) list \<times> (string \<times> string) list) world" where
  "cold_world =
     \<lparr>local_state = ([], []),
      remote_state = ([(''sha256:aa'', ''aa'')], [(''latest'', ''aa'')]),
      scheduled = []\<rparr>"

text \<open>The world after the proxy has fetched that manifest.\<close>

definition warm_world ::
    "((digest \<times> string) list \<times> (string \<times> string) list,
      (digest \<times> string) list \<times> (string \<times> string) list) world" where
  "warm_world =
     \<lparr>local_state = ([(''sha256:aa'', ''aa'')], []),
      remote_state = ([(''sha256:aa'', ''aa'')], [(''latest'', ''aa'')]),
      scheduled = [(''app'', 600000000000)]\<rparr>"

section \<open>Links in the backend\<close>

lemma digest_Parse_Inr: "digest_Parse d = Inr d' \<Longrightarrow> d' = d"
  by (auto simp: digest_Parse_def split: if_splits)

lemma is_lower_hex_not_newline: "is_lower_hex c \<Longrightarrow> c \<noteq> CHR 0x0A"
  by (auto simp: is_lower_hex_def)

lemma digest_Parse_last:
  assumes "digest_Parse d = Inr d'"
  shows "d \<noteq> [] \<and> is_lower_hex (last d)"
proof -
  let ?P = "\<lambda>c. c \<noteq> CHR '':''"
  from assms have h: "digest_hex d \<noteq> []" "list_all is_lower_hex (digest_hex d)"
    by (auto simp: digest_Parse_def split: if_splits)
  have d: "d = takeWhile ?P d @ dropWhile ?P d" by simp
  from h(1) have dw: "dropWhile ?P d \<noteq> []"
    unfolding digest_hex_def by (cases "dropWhile ?P d") simp_all
  then obtain x where x: "dropWhile ?P d = x # digest_hex d"
    by (cases "dropWhile ?P d") (auto simp: digest_hex_def)
  have "last d = last (dropWhile ?P d)"
    using dw by (metis d last_appendR)
  also have "\<dots> = last (digest_hex d)" using x h(1) by simp
  finally have "last d = last (digest_hex d)" .
  moreover have "last (digest_hex d) \<in> set (digest_hex d)" using h(1) by simp
  ultimately have "is_lower_hex (last d)" using h(2) by (auto simp: list_all_iff)
  moreover have "d \<noteq> []" using dw by auto
  ultimately show ?thesis by simp
qed

lemma trimNewline_digest: "digest_Parse d = Inr d' \<Longrightarrow> trimNewline d = d"
  using digest_Parse_last[of d d'] is_lower_hex_not_newline[of "last d"]
  by (auto simp: trimNewline_def)

lemma readlink_errors:
  "readlink p s = Inl e \<Longrightarrow>
     e = PathNotFoundError p \<or> (\<exists>f. e = StorageError f p) \<or> e = ErrDigestInvalidFormat"
  by (auto simp: readlink_def GetContent_def digest_Parse_def split: option.splits sum.splits if_splits)

lemma map_of_filter_neq:
  "map_of (filter (\<lambda>kv. fst kv \<noteq> p) fs) q = (if q = p then None else map_of fs q)"
  by (induction fs) auto

lemma PutContent_None:
  "PutContent s p c = (None, s') \<Longrightarrow>
     map_of (faults s) p = None \<and>
     s' = s\<lparr>files := (p, c) # filter (\<lambda>kv. fst kv \<noteq> p) (files s), journal := journal s @ [(p, c)]\<rparr>"
  by (auto simp: PutContent_def split: option.splits)

lemma PutContent_Some:
  "PutContent s p c = (Some e, s') \<Longrightarrow> s' = s \<and> (\<exists>f. map_of (faults s) p = Some f \<and> e = StorageError f p)"
  by (auto simp: PutContent_def split: option.splits)

lemma GetContent_after_Put:
  "PutContent s p c = (None, s') \<Longrightarrow> GetContent s' q = (if q = p then Inr c else GetContent s q)"
proof -
  assume "PutContent s p c = (None, s')"
  then have f: "faults s' = faults s" and fs: "files s' = (p, c) # filter (\<lambda>kv. fst kv \<noteq> p) (files s)"
    and np: "map_of (faults s) p = None"
    by (auto dest: PutContent_None)
  have m: "map_of (files s') q = (if q = p then Some c else map_of (files s) q)"
    by (simp add: fs map_of_filter_neq)
  show ?thesis
    unfolding GetContent_def f m using np by (simp split: option.splits)
qed

lemma index_path_neq_current:
  "pathFor (manifestTagIndexEntryLinkPathSpec n t d) = Inr ip \<Longrightarrow>
   pathFor (manifestTagCurrentPathSpec n t) = Inr cp \<Longrightarrow> ip \<noteq> cp"
  by (auto split: sum.splits)

lemma linkBlob_None:
  "linkBlob (TagStore_linkedBlobStore ts tag) desc s = (None, s1) \<Longrightarrow>
   \<exists>ip. pathFor (manifestTagIndexEntryLinkPathSpec (Name (repository ts)) tag (Digest desc)) = Inr ip
       \<and> PutContent s ip (Digest desc) = (None, s1)"
  by (auto simp: linkBlob_def TagStore_linkedBlobStore_def link_def split: sum.splits)

lemma linkBlob_Some:
  "linkBlob (TagStore_linkedBlobStore ts tag) desc s = (Some e, s1) \<Longrightarrow> s1 = s"
  by (auto simp: linkBlob_def TagStore_linkedBlobStore_def link_def split: sum.splits dest: PutContent_Some)

lemma pathFor_index_valid:
  "pathFor (manifestTagIndexEntryLinkPathSpec n t d) = Inr ip \<Longrightarrow> digest_Parse d = Inr d"
  by (auto simp: digestPathComponents_def split: sum.splits dest: digest_Parse_Inr)

text \<open>The equations that evaluate the tag store on the concrete backends.\<close>

lemmas tag_eval = TagStore_Tag_def linkBlob_def TagStore_linkedBlobStore_def link_def PutContent_def
  digestPathComponents_def digest_Parse_def digest_algorithm_def digest_hex_def
  is_lower_alnum_def is_lower_hex_def repositoriesRoot_def
  example_store_def example_repository_def NewStore_def Atoi_def
  desc_a_def desc_b_def empty_driver_def v1_current_def v1_index_a_def v1_index_b_def
  tagged_driver_def faulty_driver_def

lemmas full_eval = digest_e_def digest_f_def desc_e_def desc_f_def v1_index_e_def tagged_e_driver_def

lemmas read_eval = TagStore_Get_def TagStore_All_def TagStore_Lookup_def lookupRun_def lookupTag_def
  readlink_def GetContent_def trimNewline_def driver_List_def children_def path_Split_def
  currentLinkPath_def zero_limit_store_def three_tags_driver_def

lemmas manifests_eval = manifestRevisionLinkPath_def blobLinkPath_def legacy_driver_def
  digestPathComponents_def digest_Parse_def digest_algorithm_def digest_hex_def
  is_lower_alnum_def is_lower_hex_def repositoriesRoot_def example_repository_def
  readlink_def GetContent_def trimNewline_def desc_b_def

lemmas proxy_eval = proxyManifestStore_GetByTag_def proxyManifestStore_Get_def AddManifest_def
  example_proxy_def readonly_proxy_def memoryManifests_def toyDigest_def cold_world_def warm_world_def
  repositoryTTL_def Minute_def Second_def Millisecond_def Microsecond_def Nanosecond_def

section \<open>Tag store: tagging and reading a tag\<close>

lemma linkBlob_Some_tag:
  "linkBlob (TagStore_linkedBlobStore ts tag) desc s = (Some e, s1) \<Longrightarrow>
   TagStore_Tag ts tag desc s = (Some e, s)"
  by (frule linkBlob_Some) (simp add: TagStore_Tag_def)

lemma last_component_eq:
  assumes "CHR ''/'' \<notin> set x" and "CHR ''/'' \<notin> set y"
    and "a @ ''/'' @ x = b @ ''/'' @ y"
  shows "x = y"
proof -
  let ?P = "\<lambda>c. c \<noteq> CHR ''/''"
  from assms(3) have "rev (a @ ''/'' @ x) = rev (b @ ''/'' @ y)" by simp
  then have e: "rev x @ CHR ''/'' # rev a = rev y @ CHR ''/'' # rev b" by simp
  have "takeWhile ?P (rev x @ CHR ''/'' # rev a) = rev x"
    using assms(1) by (auto simp: takeWhile_tail)
  moreover have "takeWhile ?P (rev y @ CHR ''/'' # rev b) = rev y"
    using assms(2) by (auto simp: takeWhile_tail)
  ultimately have "rev x = rev y" using e by simp
  then show ?thesis by simp
qed

lemma hex_no_slash: "list_all is_lower_hex h \<Longrightarrow> CHR ''/'' \<notin> set h"
  by (auto simp: list_all_iff is_lower_hex_def)

lemma index_path_neq_any_current:
  assumes "pathFor (manifestTagIndexEntryLinkPathSpec n t2 d) = Inr ip"
  shows "ip \<noteq> repositoriesRoot n @ ''/_manifests/tags/'' @ t @ ''/current/link''"
proof
  assume eq: "ip = repositoriesRoot n @ ''/_manifests/tags/'' @ t @ ''/current/link''"
  from assms have hex: "list_all is_lower_hex (digest_hex d)"
    and ip: "ip = repositoriesRoot n @ ''/_manifests/tags/'' @ t2 @ ''/index/'' @ digest_algorithm d @ ''/'' @ digest_hex d @ ''/link''"
    by (auto simp: digestPathComponents_def digest_Parse_def split: sum.splits if_splits)
  from eq ip have "(t2 @ ''/index/'' @ digest_algorithm d) @ ''/'' @ digest_hex d = t @ ''/'' @ ''current''"
    by simp
  then have "digest_hex d = ''current''"
    by (rule last_component_eq[OF hex_no_slash[OF hex], rotated]) simp
  with hex show False by (simp add: is_lower_hex_def)
qed

lemma Tag_other_GetContent:
  assumes "t2 \<noteq> tag"
  shows "GetContent (snd (TagStore_Tag ts t2 d2 s)) (currentLinkPath ts tag)
           = GetContent s (currentLinkPath ts tag)"
proof -
  let ?n = "Name (repository ts)"
  let ?cp = "repositoriesRoot ?n @ ''/_manifests/tags/'' @ tag @ ''/current/link''"
  let ?cp2 = "repositoriesRoot ?n @ ''/_manifests/tags/'' @ t2 @ ''/current/link''"
  have cp: "currentLinkPath ts tag = ?cp" by (simp add: currentLinkPath_def)
  have ne2: "?cp \<noteq> ?cp2" using assms by simp
  obtain r s1 where lb: "linkBlob (TagStore_linkedBlobStore ts t2) d2 s = (r, s1)"
    by (cases "linkBlob (TagStore_linkedBlobStore ts t2) d2 s")
  show ?thesis
  proof (cases r)
    case (Some e)
    with lb have "TagStore_Tag ts t2 d2 s = (Some e, s)" by (simp add: linkBlob_Some_tag)
    then show ?thesis by simp
  next
    case None
    with lb obtain ip where
      ip: "pathFor (manifestTagIndexEntryLinkPathSpec ?n t2 (Digest d2)) = Inr ip"
      and put1: "PutContent s ip (Digest d2) = (None, s1)"
      using linkBlob_None by blast
    have ne1: "?cp \<noteq> ip" using index_path_neq_any_current[OF ip, of tag] by simp
    have g1: "GetContent s1 ?cp = GetContent s ?cp"
      using GetContent_after_Put[OF put1, of ?cp] ne1 by simp
    have t: "TagStore_Tag ts t2 d2 s = PutContent s1 ?cp2 (Digest d2)"
      using lb None by (simp add: TagStore_Tag_def link_def)
    obtain r2 s2 where put2: "PutContent s1 ?cp2 (Digest d2) = (r2, s2)"
      by (cases "PutContent s1 ?cp2 (Digest d2)")
    have "GetContent s2 ?cp = GetContent s1 ?cp"
    proof (cases r2)
      case None
      with put2 show ?thesis using GetContent_after_Put[of s1 ?cp2 "Digest d2" s2 ?cp] ne2 by simp
    next
      case (Some e)
      with put2 have "s2 = s1" by (auto dest: PutContent_Some)
      then show ?thesis by simp
    qed
    with g1 t put2 show ?thesis by (simp add: cp)
  qed
qed

lemma Tags_other_GetContent:
  "tag \<notin> fst ` set calls \<Longrightarrow>
   GetContent (TagStore_Tags ts calls s) (currentLinkPath ts tag) = GetContent s (currentLinkPath ts tag)"
proof (induction calls arbitrary: s)
  case Nil
  then show ?case by simp
next
  case (Cons c calls)
  obtain t2 d2 where c: "c = (t2, d2)" by (cases c)
  with Cons.prems have ne: "t2 \<noteq> tag" and rest: "tag \<notin> fst ` set calls" by auto
  show ?case
    using Cons.IH[OF rest, of "snd (TagStore_Tag ts t2 d2 s)"] Tag_other_GetContent[OF ne, of ts d2 s]
    by (simp add: c)
qed

lemma Get_by_GetContent:
  "GetContent s' (currentLinkPath ts tag) = GetContent s (currentLinkPath ts tag) \<Longrightarrow>
   TagStore_Get ts tag s' = TagStore_Get ts tag s"
  by (simp add: TagStore_Get_def readlink_def currentLinkPath_def)

text \<open>
  C1. After a successful \<^verbatim>\<open>Tag(t, d)\<close>, and whatever further \<^verbatim>\<open>Tag\<close> calls on other tags
  of the repository come in between, successful or not, \<^verbatim>\<open>Get(t)\<close> returns a descriptor
  whose digest is the digest of \<open>d\<close>: no writer on the tag itself has intervened.
\<close>

theorem Tag_then_Get:
  assumes "TagStore_Tag ts tag desc s = (None, s')"
    and "tag \<notin> fst ` set others"
  shows "\<exists>d. TagStore_Get ts tag (TagStore_Tags ts others s') = Inr d \<and> Digest d = Digest desc"
proof -
  let ?cp = "repositoriesRoot (Name (repository ts)) @ ''/_manifests/tags/'' @ tag @ ''/current/link''"
  obtain r s1 where lb: "linkBlob (TagStore_linkedBlobStore ts tag) desc s = (r, s1)"
    by (cases "linkBlob (TagStore_linkedBlobStore ts tag) desc s")
  with assms(1) have r: "r = None" and put: "PutContent s1 ?cp (Digest desc) = (None, s')"
    by (auto simp: TagStore_Tag_def link_def split: option.splits)
  from lb r obtain ip where
    ip: "pathFor (manifestTagIndexEntryLinkPathSpec (Name (repository ts)) tag (Digest desc)) = Inr ip"
    using linkBlob_None by blast
  then have valid: "digest_Parse (Digest desc) = Inr (Digest desc)"
    by (rule pathFor_index_valid)
  from put have "GetContent s' ?cp = Inr (Digest desc)"
    by (simp add: GetContent_after_Put)
  then have "readlink ?cp s' = Inr (Digest desc)"
    using valid by (simp add: readlink_def trimNewline_digest)
  then have "\<exists>d. TagStore_Get ts tag s' = Inr d \<and> Digest d = Digest desc"
    by (simp add: TagStore_Get_def)
  moreover have "TagStore_Get ts tag (TagStore_Tags ts others s') = TagStore_Get ts tag s'"
    by (rule Get_by_GetContent) (rule Tags_other_GetContent[OF assms(2)])
  ultimately show ?thesis by simp
qed

theorem Tag_then_Get_witness:
  "TagStore_Tag example_store ''v1'' desc_e empty_driver = (None, tagged_e_driver)
   \<and> ''v1'' \<notin> fst ` set [(''v2'', desc_f), (''latest'', desc_e), (''v2'', Descriptor_zero)]
   \<and> (\<exists>d. TagStore_Get example_store ''v1''
              (TagStore_Tags example_store
                 [(''v2'', desc_f), (''latest'', desc_e), (''v2'', Descriptor_zero)] tagged_e_driver) = Inr d
          \<and> Digest d = digest_e)
   \<and> TagStore_Get example_store ''v2''
        (TagStore_Tags example_store
           [(''v2'', desc_f), (''latest'', desc_e), (''v2'', Descriptor_zero)] tagged_e_driver) = Inr desc_f"
proof -
  have h: "TagStore_Tag example_store ''v1'' desc_e empty_driver = (None, tagged_e_driver)"
    by (simp add: tag_eval full_eval)
  have o: "''v1'' \<notin> fst ` set [(''v2'', desc_f), (''latest'', desc_e), (''v2'', Descriptor_zero)]"
    by simp
  have g: "TagStore_Get example_store ''v2''
        (TagStore_Tags example_store
           [(''v2'', desc_f), (''latest'', desc_e), (''v2'', Descriptor_zero)] tagged_e_driver) = Inr desc_f"
    by (simp add: tag_eval full_eval read_eval Descriptor_zero_def)
  from Tag_then_Get[OF h o] show ?thesis using h g by (simp add: desc_e_def)
qed

text \<open>
  C2. \<^verbatim>\<open>Tag(t, d)\<close> writes twice, in a fixed order: first the history link of \<open>d\<close> in
  the index of the tag, then the current link of the tag, at a different path. The first
  write alone leaves the current link as it was. If the history link cannot be created,
  \<^verbatim>\<open>Tag\<close> returns that error and the backend, so also the current link, is unchanged.
\<close>

theorem Tag_write_order:
  "(TagStore_Tag ts tag desc s = (None, s') \<longrightarrow>
      (\<exists>ip cp. pathFor (manifestTagIndexEntryLinkPathSpec (Name (repository ts)) tag (Digest desc)) = Inr ip
         \<and> pathFor (manifestTagCurrentPathSpec (Name (repository ts)) tag) = Inr cp
         \<and> ip \<noteq> cp
         \<and> journal s' = journal s @ [(ip, Digest desc), (cp, Digest desc)]))
   \<and> (linkBlob (TagStore_linkedBlobStore ts tag) desc s = (None, s1) \<longrightarrow>
        TagStore_Get ts tag s1 = TagStore_Get ts tag s)
   \<and> (linkBlob (TagStore_linkedBlobStore ts tag) desc s = (Some err, s1) \<longrightarrow>
        TagStore_Tag ts tag desc s = (Some err, s)
        \<and> TagStore_Get ts tag (snd (TagStore_Tag ts tag desc s)) = TagStore_Get ts tag s)"
proof (intro conjI impI)
  let ?cp = "repositoriesRoot (Name (repository ts)) @ ''/_manifests/tags/'' @ tag @ ''/current/link''"
  have cp: "pathFor (manifestTagCurrentPathSpec (Name (repository ts)) tag) = Inr ?cp" by simp
  {
    assume t: "TagStore_Tag ts tag desc s = (None, s')"
    obtain r s1 where lb: "linkBlob (TagStore_linkedBlobStore ts tag) desc s = (r, s1)"
      by (cases "linkBlob (TagStore_linkedBlobStore ts tag) desc s")
    with t have r: "r = None" and put: "PutContent s1 ?cp (Digest desc) = (None, s')"
      by (auto simp: TagStore_Tag_def link_def split: option.splits)
    from lb r obtain ip where
      ip: "pathFor (manifestTagIndexEntryLinkPathSpec (Name (repository ts)) tag (Digest desc)) = Inr ip"
      and put1: "PutContent s ip (Digest desc) = (None, s1)"
      using linkBlob_None by blast
    have neq: "ip \<noteq> ?cp" using ip cp by (rule index_path_neq_current)
    have "journal s1 = journal s @ [(ip, Digest desc)]"
      using put1 by (auto dest: PutContent_None)
    moreover have "journal s' = journal s1 @ [(?cp, Digest desc)]"
      using put by (auto dest: PutContent_None)
    ultimately have "journal s' = journal s @ [(ip, Digest desc), (?cp, Digest desc)]" by simp
    with ip cp neq
    show "\<exists>ip cp. pathFor (manifestTagIndexEntryLinkPathSpec (Name (repository ts)) tag (Digest desc)) = Inr ip
         \<and> pathFor (manifestTagCurrentPathSpec (Name (repository ts)) tag) = Inr cp
         \<and> ip \<noteq> cp
         \<and> journal s' = journal s @ [(ip, Digest desc), (cp, Digest desc)]"
      by blast
  }
  {
    assume lb: "linkBlob (TagStore_linkedBlobStore ts tag) desc s = (None, s1)"
    then obtain ip where
      ip: "pathFor (manifestTagIndexEntryLinkPathSpec (Name (repository ts)) tag (Digest desc)) = Inr ip"
      and put1: "PutContent s ip (Digest desc) = (None, s1)"
      using linkBlob_None by blast
    have neq: "?cp \<noteq> ip" using index_path_neq_current[OF ip cp] by simp
    have "GetContent s1 ?cp = GetContent s ?cp"
      using GetContent_after_Put[OF put1, of ?cp] neq by simp
    then show "TagStore_Get ts tag s1 = TagStore_Get ts tag s"
      by (simp add: TagStore_Get_def readlink_def)
  }
  {
    assume lb: "linkBlob (TagStore_linkedBlobStore ts tag) desc s = (Some err, s1)"
    then show t: "TagStore_Tag ts tag desc s = (Some err, s)" by (rule linkBlob_Some_tag)
    show "TagStore_Get ts tag (snd (TagStore_Tag ts tag desc s)) = TagStore_Get ts tag s"
      by (simp add: t)
  }
qed

theorem Tag_write_order_witness:
  "TagStore_Tag example_store ''v1'' desc_a empty_driver = (None, tagged_driver)
   \<and> journal tagged_driver = [(v1_index_a, ''sha256:aa''), (v1_current, ''sha256:aa'')]
   \<and> linkBlob (TagStore_linkedBlobStore example_store ''v1'') desc_b tagged_driver
        = (None, tagged_driver\<lparr>files := (v1_index_b, ''sha256:bb'') # files tagged_driver,
                                 journal := journal tagged_driver @ [(v1_index_b, ''sha256:bb'')]\<rparr>)
   \<and> TagStore_Get example_store ''v1''
        (tagged_driver\<lparr>files := (v1_index_b, ''sha256:bb'') # files tagged_driver,
                        journal := journal tagged_driver @ [(v1_index_b, ''sha256:bb'')]\<rparr>)
        = TagStore_Get example_store ''v1'' tagged_driver
   \<and> linkBlob (TagStore_linkedBlobStore example_store ''v1'') desc_b faulty_driver
        = (Some (StorageError PermanentIO v1_index_b), faulty_driver)
   \<and> TagStore_Tag example_store ''v1'' desc_b faulty_driver
        = (Some (StorageError PermanentIO v1_index_b), faulty_driver)
   \<and> TagStore_Get example_store ''v1'' (snd (TagStore_Tag example_store ''v1'' desc_b faulty_driver))
        = Inr desc_a"
proof -
  let ?s1 = "tagged_driver\<lparr>files := (v1_index_b, ''sha256:bb'') # files tagged_driver,
                            journal := journal tagged_driver @ [(v1_index_b, ''sha256:bb'')]\<rparr>"
  have h1: "TagStore_Tag example_store ''v1'' desc_a empty_driver = (None, tagged_driver)"
    by (simp add: tag_eval)
  have h2: "linkBlob (TagStore_linkedBlobStore example_store ''v1'') desc_b tagged_driver = (None, ?s1)"
    by (simp add: tag_eval)
  have h3: "linkBlob (TagStore_linkedBlobStore example_store ''v1'') desc_b faulty_driver
        = (Some (StorageError PermanentIO v1_index_b), faulty_driver)"
    by (simp add: tag_eval)
  have g: "TagStore_Get example_store ''v1'' faulty_driver = Inr desc_a"
    by (simp add: tag_eval read_eval Descriptor_zero_def)
  note t1 = Tag_write_order[where ts=example_store and tag="''v1''" and desc=desc_a and s=empty_driver and s'=tagged_driver, THEN conjunct1, rule_format, OF h1]
  note t2 = Tag_write_order[where ts=example_store and tag="''v1''" and desc=desc_b and s=tagged_driver and ?s1.0="?s1", THEN conjunct2, THEN conjunct1, rule_format, OF h2]
  note t3 = Tag_write_order[where ts=example_store and tag="''v1''" and desc=desc_b and s=faulty_driver
        and err="StorageError PermanentIO v1_index_b" and ?s1.0=faulty_driver,
      THEN conjunct2, THEN conjunct2, rule_format, OF h3]
  have j: "journal tagged_driver = [(v1_index_a, ''sha256:aa''), (v1_current, ''sha256:aa'')]"
    using t1 by (simp add: tag_eval)
  show ?thesis
    using h1 j h2 t2 h3 t3 g by simp
qed

text \<open>
  C8. \<^verbatim>\<open>Get(tag)\<close> returns \<^verbatim>\<open>ErrTagUnknown{tag}\<close> exactly when reading the current link
  of the tag fails with \<^verbatim>\<open>PathNotFoundError\<close>; every other error of the read is returned
  as it is; and when the read succeeds \<^verbatim>\<open>Get\<close> returns the descriptor that carries the
  linked digest and nothing else.
\<close>

theorem Get_errors:
  "(TagStore_Get ts tag s = Inl (ErrTagUnknown tag)
      \<longleftrightarrow> (\<exists>p. readlink (currentLinkPath ts tag) s
                 = Inl (PathNotFoundError p)))
   \<and> (\<forall>err. readlink (currentLinkPath ts tag) s = Inl err
          \<and> (\<forall>p. err \<noteq> PathNotFoundError p) \<longrightarrow> TagStore_Get ts tag s = Inl err)
   \<and> (\<forall>revision. readlink (currentLinkPath ts tag) s = Inr revision
          \<longrightarrow> TagStore_Get ts tag s = Inr \<lparr>MediaType = [], Digest = revision, Size = 0, URLs = []\<rparr>)"
proof -
  let ?cp = "currentLinkPath ts tag"
  show ?thesis
  proof (cases "readlink ?cp s")
    case (Inl e)
    from readlink_errors[OF Inl] show ?thesis
      using Inl by (auto simp: TagStore_Get_def currentLinkPath_def)
  next
    case (Inr rev)
    then show ?thesis by (simp add: TagStore_Get_def Descriptor_zero_def currentLinkPath_def)
  qed
qed

theorem Get_errors_witness:
  "TagStore_Get example_store ''v1'' empty_driver = Inl (ErrTagUnknown ''v1'')
   \<and> readlink (currentLinkPath example_store ''v1'') empty_driver = Inl (PathNotFoundError v1_current)
   \<and> readlink (currentLinkPath example_store ''v1'') (empty_driver\<lparr>faults := [(v1_current, TransientIO)]\<rparr>)
        = Inl (StorageError TransientIO v1_current)
   \<and> TagStore_Get example_store ''v1'' (empty_driver\<lparr>faults := [(v1_current, TransientIO)]\<rparr>)
        = Inl (StorageError TransientIO v1_current)
   \<and> readlink (currentLinkPath example_store ''v1'') tagged_driver = Inr ''sha256:aa''
   \<and> TagStore_Get example_store ''v1'' tagged_driver = Inr desc_a"
proof -
  let ?f = "empty_driver\<lparr>faults := [(v1_current, TransientIO)]\<rparr>"
  have r1: "readlink (currentLinkPath example_store ''v1'') empty_driver = Inl (PathNotFoundError v1_current)"
    by (simp add: tag_eval read_eval)
  have r2: "readlink (currentLinkPath example_store ''v1'') ?f = Inl (StorageError TransientIO v1_current)"
    by (simp add: tag_eval read_eval)
  have r3: "readlink (currentLinkPath example_store ''v1'') tagged_driver = Inr ''sha256:aa''"
    by (simp add: tag_eval read_eval)
  have g1: "TagStore_Get example_store ''v1'' empty_driver = Inl (ErrTagUnknown ''v1'')"
    using Get_errors[of example_store "''v1''" empty_driver, THEN conjunct1] r1 by blast
  have g2: "TagStore_Get example_store ''v1'' ?f = Inl (StorageError TransientIO v1_current)"
    using Get_errors[of example_store "''v1''" ?f, THEN conjunct2, THEN conjunct1, rule_format,
        of "StorageError TransientIO v1_current"] r2 by simp
  have g3: "TagStore_Get example_store ''v1'' tagged_driver = Inr desc_a"
    using Get_errors[of example_store "''v1''" tagged_driver, THEN conjunct2, THEN conjunct2, rule_format, OF r3]
    by (simp add: desc_a_def)
  show ?thesis using r1 r2 r3 g1 g2 g3 by simp
qed

section \<open>Tag store: listing and reverse lookup\<close>

text \<open>
  C7. Whenever the backend lists the tags directory of the repository, \<^verbatim>\<open>All\<close> returns
  the names of the listed entries in ascending lexicographic order of their bytes: the
  result is sorted and is a permutation of the entry names.
\<close>

theorem All_sorted:
  assumes "driver_List s (repositoriesRoot (Name (repository ts)) @ ''/_manifests/tags'') = Inr entries"
  shows "\<exists>tags. TagStore_All ts s = Inr tags \<and> sorted tags
           \<and> mset tags = mset (map (\<lambda>entry. snd (path_Split entry)) entries)"
  using assms by (simp add: TagStore_All_def)

theorem All_sorted_witness:
  "driver_List three_tags_driver (repositoriesRoot (Name (repository example_store)) @ ''/_manifests/tags'')
     = Inr [''/docker/registry/v2/repositories/app/_manifests/tags/v2'',
            ''/docker/registry/v2/repositories/app/_manifests/tags/latest'',
            ''/docker/registry/v2/repositories/app/_manifests/tags/v1'']
   \<and> TagStore_All example_store three_tags_driver = Inr [''latest'', ''v1'', ''v2'']
   \<and> (\<exists>tags. TagStore_All example_store three_tags_driver = Inr tags \<and> sorted tags
        \<and> mset tags = mset [''v2'', ''latest'', ''v1''])"
proof -
  have h: "driver_List three_tags_driver (repositoriesRoot (Name (repository example_store)) @ ''/_manifests/tags'')
     = Inr [''/docker/registry/v2/repositories/app/_manifests/tags/v2'',
            ''/docker/registry/v2/repositories/app/_manifests/tags/latest'',
            ''/docker/registry/v2/repositories/app/_manifests/tags/v1'']"
    by (simp add: tag_eval read_eval)
  have a: "TagStore_All example_store three_tags_driver = Inr [''latest'', ''v1'', ''v2'']"
    by (simp add: tag_eval read_eval)
  from All_sorted[OF h] show ?thesis using h a by (simp add: path_Split_def)
qed

text \<open>
  C10. When \<^verbatim>\<open>All\<close> fails with \<^verbatim>\<open>ErrRepositoryUnknown\<close>, \<^verbatim>\<open>Lookup\<close> does not pass the
  error on: it returns the empty list of tags and no error, for every descriptor and
  every lookup concurrency factor.
\<close>

theorem Lookup_unknown_repository:
  assumes "TagStore_All ts s = Inl (ErrRepositoryUnknown n)"
  shows "TagStore_Lookup ts desc s = Some (Inr [])"
  using assms by (simp add: TagStore_Lookup_def lookupRun_def)

theorem Lookup_unknown_repository_witness:
  "TagStore_All example_store empty_driver = Inl (ErrRepositoryUnknown ''app'')
   \<and> TagStore_Lookup example_store desc_a empty_driver = Some (Inr [])
   \<and> TagStore_All zero_limit_store empty_driver = Inl (ErrRepositoryUnknown ''app'')
   \<and> TagStore_Lookup zero_limit_store desc_a empty_driver = Some (Inr [])"
proof -
  have h1: "TagStore_All example_store empty_driver = Inl (ErrRepositoryUnknown ''app'')"
    by (simp add: tag_eval read_eval)
  have h2: "TagStore_All zero_limit_store empty_driver = Inl (ErrRepositoryUnknown ''app'')"
    by (simp add: tag_eval read_eval)
  from Lookup_unknown_repository[OF h1, of desc_a] Lookup_unknown_repository[OF h2, of desc_a] h1 h2
  show ?thesis by simp
qed

lemma groupWait_None_iff: "groupWait rs = None \<longleftrightarrow> (\<forall>r\<in>set rs. \<exists>out. r = Inr out)"
  by (induction rs rule: groupWait.induct) auto

lemma set_received: "set (received rs) = {t. Inr (Some t) \<in> set rs}"
  by (induction rs rule: received.induct) auto

lemma lookupTag_cases:
  "lookupTag ts desc s tag =
     (case readlink (currentLinkPath ts tag) s of
        Inl (PathNotFoundError p) \<Rightarrow> Inr None
      | Inl err \<Rightarrow> Inl err
      | Inr tagDigest \<Rightarrow> if tagDigest = Digest desc then Inr (Some tag) else Inr None)"
  by (simp add: lookupTag_def currentLinkPath_def)

lemma lookupTag_Some_iff:
  "lookupTag ts desc s tag = Inr (Some t) \<longleftrightarrow>
     t = tag \<and> readlink (currentLinkPath ts tag) s = Inr (Digest desc)"
  by (auto simp: lookupTag_cases split: sum.splits error.splits if_splits)

lemma lookupTag_Inl_iff:
  "lookupTag ts desc s tag = Inl e \<longleftrightarrow>
     readlink (currentLinkPath ts tag) s = Inl e
     \<and> (\<forall>p. e \<noteq> PathNotFoundError p)"
  by (auto simp: lookupTag_cases split: sum.splits error.splits if_splits)

text \<open>
  What \<^verbatim>\<open>Lookup\<close> returns when its goroutines can run: with a lookup concurrency factor
  other than zero, and no read of a current link failing with anything but
  \<^verbatim>\<open>PathNotFoundError\<close>, the result is the set of the tags whose current link resolves
  to the digest of the descriptor; a tag whose link is not found is left out.
\<close>

lemma Lookup_matching_tags:
  assumes nz: "lookupConcurrencyFactor ts \<noteq> 0"
    and all: "TagStore_All ts s = Inr allTags"
    and ok: "\<forall>t\<in>set allTags. \<forall>e.
        readlink (currentLinkPath ts t) s = Inl e
          \<longrightarrow> (\<exists>p. e = PathNotFoundError p)"
  shows "\<exists>tags. TagStore_Lookup ts desc s = Some (Inr tags)
           \<and> set tags = {t \<in> set allTags.
                readlink (currentLinkPath ts t) s
                  = Inr (Digest desc)}"
proof -
  let ?rs = "map (lookupTag ts desc s) allTags"
  have "\<forall>r\<in>set ?rs. \<exists>out. r = Inr out"
  proof
    fix r assume "r \<in> set ?rs"
    then obtain t where t: "t \<in> set allTags" and r: "r = lookupTag ts desc s t" by auto
    show "\<exists>out. r = Inr out"
    proof (cases r)
      case (Inl e)
      with r have "lookupTag ts desc s t = Inl e" by simp
      then show ?thesis using ok t by (auto simp: lookupTag_Inl_iff)
    qed simp
  qed
  then have gw: "groupWait ?rs = None" by (simp add: groupWait_None_iff)
  have "TagStore_Lookup ts desc s = Some (Inr (received ?rs))"
    using nz all gw by (simp add: TagStore_Lookup_def lookupRun_def)
  moreover have "set (received ?rs) = {t \<in> set allTags.
                readlink (currentLinkPath ts t) s
                  = Inr (Digest desc)}"
  proof -
    have "\<And>t x. (Inr (Some t) = lookupTag ts desc s x) = (lookupTag ts desc s x = Inr (Some t))"
      by (rule eq_commute)
    then show ?thesis
      by (auto simp: set_received lookupTag_Some_iff image_iff)
  qed
  ultimately show ?thesis by blast
qed

text \<open>
  C6. For every descriptor \<open>d\<close>, \<^verbatim>\<open>Lookup(d)\<close> returns exactly the tags of the repository
  whose current link resolves to the digest of \<open>d\<close>. The code does so for every lookup
  concurrency factor but zero (\<open>Lookup_matching_tags\<close>). With the environment variable
  \<^verbatim>\<open>STORAGE_TAGSTORE_LOOKUP_CONCURRENCY\<close> set to \<^verbatim>\<open>0\<close>, \<open>NewStore\<close> takes the factor
  0 as it is. On the repository where \<^verbatim>\<open>Tag("v1", e)\<close> has succeeded, \<open>e\<close> with the
  SHA-256 digest of the empty string, \<^verbatim>\<open>v1\<close> is listed and resolves to that digest, yet
  \<^verbatim>\<open>Lookup(e)\<close> never returns; with the variable unset the same call returns
  \<^verbatim>\<open>["v1"]\<close>.
\<close>

theorem Lookup_never_returns_with_limit_zero:
  "lookupConcurrencyFactor (NewStore ''0'' example_repository) = 0
   \<and> TagStore_Tag (NewStore ''0'' example_repository) ''v1'' desc_e empty_driver = (None, tagged_e_driver)
   \<and> TagStore_All (NewStore ''0'' example_repository) tagged_e_driver = Inr [''v1'']
   \<and> TagStore_Get (NewStore ''0'' example_repository) ''v1'' tagged_e_driver = Inr desc_e
   \<and> TagStore_Lookup (NewStore ''0'' example_repository) desc_e tagged_e_driver = None
   \<and> TagStore_Lookup (NewStore [] example_repository) desc_e tagged_e_driver = Some (Inr [''v1''])"
  by (simp add: tag_eval read_eval full_eval Descriptor_zero_def is_digit_def digits_value_def)

section \<open>Manifest service of a repository: link paths\<close>

lemma applyOptions_blobStore:
  "applyOptions options ms0 = Inr ms \<Longrightarrow>
   \<forall>option\<in>set options. \<forall>m. ms_blobStore (snd (option m)) = ms_blobStore m \<Longrightarrow>
   ms_blobStore ms = ms_blobStore ms0"
proof (induction options arbitrary: ms0)
  case Nil
  then show ?case by simp
next
  case (Cons option options)
  obtain r m1 where o: "option ms0 = (r, m1)" by (cases "option ms0")
  with Cons.prems(1) have r: "r = None" and rest: "applyOptions options m1 = Inr ms"
    by (auto split: option.splits)
  have "ms_blobStore m1 = ms_blobStore ms0"
    using Cons.prems(2) o by (metis list.set_intros(1) snd_conv)
  moreover have "ms_blobStore ms = ms_blobStore m1"
    using Cons.IH[OF rest] Cons.prems(2) by simp
  ultimately show ?case by simp
qed

text \<open>
  C5. The manifest service built by \<^verbatim>\<open>repository.Manifests\<close> carries, for its blob store
  and for the statter of that store, the manifest revision link path followed by the
  layer link path, whatever options are applied that leave the blob store alone. A
  link at the revision path is resolved from there; a manifest linked only at the layer
  link path is resolved through the second entry; and a link is written at the revision
  path, the first entry, only.
\<close>

theorem Manifests_link_paths:
  assumes built: "repository_Manifests repo options = Inr ms"
    and keep: "\<forall>option\<in>set options. \<forall>m. ms_blobStore (snd (option m)) = ms_blobStore m"
  shows "linkPathFns (ms_blobStore ms) = [manifestRevisionLinkPath, blobLinkPath]
    \<and> lbst_linkPathFns (blobAccessController (ms_blobStore ms)) = [manifestRevisionLinkPath, blobLinkPath]
    \<and> (\<forall>dgst s rp target.
          manifestRevisionLinkPath (Name repo) dgst = Inr rp \<and> readlink rp s = Inr target
          \<longrightarrow> linkedBlobStatter_resolve (blobAccessController (ms_blobStore ms)) dgst s = Inr target)
    \<and> (\<forall>dgst s rp lp target.
          manifestRevisionLinkPath (Name repo) dgst = Inr rp \<and> readlink rp s = Inl (PathNotFoundError rp)
          \<and> blobLinkPath (Name repo) dgst = Inr lp \<and> readlink lp s = Inr target
          \<longrightarrow> linkedBlobStatter_resolve (blobAccessController (ms_blobStore ms)) dgst s = Inr target)
    \<and> (\<forall>desc s s'.
          repoLinkedBlobStore_linkBlob (ms_blobStore ms) desc s = (None, s')
          \<longrightarrow> (\<exists>rp. manifestRevisionLinkPath (Name repo) (Digest desc) = Inr rp
                 \<and> journal s' = journal s @ [(rp, Digest desc)]))"
proof -
  let ?fns = "[manifestRevisionLinkPath, blobLinkPath]"
  let ?bs = "\<lparr>rlbs_repository = repo,
             rlbs_deleteEnabled = deleteEnabled (repo_registry repo),
             blobAccessController =
               \<lparr>lbst_repository = repo,
                lbst_linkPathFns = ?fns,
                lbst_removeParentsOnDelete = removeParentsOnDelete (repo_registry repo)\<rparr>,
             linkPathFns = ?fns,
             blobsRootPathFns = [manifestRevisionsPath, blobsRootPath]\<rparr>"
  from built obtain ms0 where a: "applyOptions options ms0 = Inr ms" and b: "ms_blobStore ms0 = ?bs"
    by (auto simp: repository_Manifests_def Let_def)
  have bs: "ms_blobStore ms = ?bs"
    using applyOptions_blobStore[OF a keep] b by simp
  have w: "\<And>desc s s'. repoLinkedBlobStore_linkBlob ?bs desc s = (None, s')
          \<Longrightarrow> (\<exists>rp. manifestRevisionLinkPath (Name repo) (Digest desc) = Inr rp
                 \<and> journal s' = journal s @ [(rp, Digest desc)])"
    by (auto simp: repoLinkedBlobStore_linkBlob_def link_def split: sum.splits dest: PutContent_None)
  show ?thesis
    unfolding bs using w
    by (auto simp: linkedBlobStatter_resolve_def)
qed

theorem Manifests_link_paths_witness:
  "\<exists>ms. repository_Manifests example_repository [keepOption] = Inr ms
     \<and> manifestRevisionLinkPath ''app'' ''sha256:aa''
          = Inr ''/docker/registry/v2/repositories/app/_manifests/revisions/sha256/aa/link''
     \<and> readlink ''/docker/registry/v2/repositories/app/_manifests/revisions/sha256/aa/link'' legacy_driver
          = Inl (PathNotFoundError ''/docker/registry/v2/repositories/app/_manifests/revisions/sha256/aa/link'')
     \<and> blobLinkPath ''app'' ''sha256:aa''
          = Inr ''/docker/registry/v2/repositories/app/_layers/sha256/aa/link''
     \<and> readlink ''/docker/registry/v2/repositories/app/_layers/sha256/aa/link'' legacy_driver
          = Inr ''sha256:aa''
     \<and> linkedBlobStatter_resolve (blobAccessController (ms_blobStore ms)) ''sha256:aa'' legacy_driver
          = Inr ''sha256:aa''
     \<and> linkPathFns (ms_blobStore ms) = [manifestRevisionLinkPath, blobLinkPath]"
proof -
  let ?rp = "''/docker/registry/v2/repositories/app/_manifests/revisions/sha256/aa/link''"
  let ?lp = "''/docker/registry/v2/repositories/app/_layers/sha256/aa/link''"
  obtain ms where b: "repository_Manifests example_repository [keepOption] = Inr ms"
    by (simp add: repository_Manifests_def keepOption_def Let_def)
  have k: "\<forall>option\<in>set [keepOption]. \<forall>m. ms_blobStore (snd (option m)) = ms_blobStore m"
    by (simp add: keepOption_def)
  have n: "Name example_repository = ''app''" by (simp add: example_repository_def)
  have h1: "manifestRevisionLinkPath ''app'' ''sha256:aa'' = Inr ?rp"
    by (simp add: manifests_eval)
  have h2: "readlink ?rp legacy_driver = Inl (PathNotFoundError ?rp)"
    by (simp add: manifests_eval)
  have h3: "blobLinkPath ''app'' ''sha256:aa'' = Inr ?lp"
    by (simp add: manifests_eval)
  have h4: "readlink ?lp legacy_driver = Inr ''sha256:aa''"
    by (simp add: manifests_eval)
  note T = Manifests_link_paths[OF b k, unfolded n]
  from T have fns: "linkPathFns (ms_blobStore ms) = [manifestRevisionLinkPath, blobLinkPath]"
    by blast
  from T have "manifestRevisionLinkPath ''app'' ''sha256:aa'' = Inr ?rp
       \<and> readlink ?rp legacy_driver = Inl (PathNotFoundError ?rp)
       \<and> blobLinkPath ''app'' ''sha256:aa'' = Inr ?lp \<and> readlink ?lp legacy_driver = Inr ''sha256:aa''
      \<longrightarrow> linkedBlobStatter_resolve (blobAccessController (ms_blobStore ms)) ''sha256:aa'' legacy_driver
            = Inr ''sha256:aa''"
    by blast
  with h1 h2 h3 h4 have r: "linkedBlobStatter_resolve (blobAccessController (ms_blobStore ms)) ''sha256:aa'' legacy_driver
            = Inr ''sha256:aa''"
    by blast
  show ?thesis using b h1 h2 h3 h4 r fns by blast
qed

section \<open>Proxy manifest store: reads and writes\<close>

text \<open>
  C9. \<^verbatim>\<open>Put\<close> and \<^verbatim>\<open>Delete\<close> of the proxy manifest store return the error
  \<^verbatim>\<open>Not supported\<close> for every input and every state, and leave the local registry, the
  remote registry and the scheduler as they were.
\<close>

theorem proxy_Put_Delete_not_supported:
  "proxyManifestStore_Put pms manifest w = (Some (errorString ''Not supported''), w)
   \<and> proxyManifestStore_Delete pms dgst w = (Some (errorString ''Not supported''), w)"
  by (simp add: proxyManifestStore_Put_def proxyManifestStore_Delete_def)

text \<open>
  C3. \<^verbatim>\<open>GetByTag(tag)\<close> of the proxy asks the remote registry first and returns its error
  whatever the local registry holds, leaving everything as it was. With the manifest
  fetched and the digest of its payload computed: if the local registry has that digest,
  the fetched manifest is returned and nothing is written or scheduled; if it has not,
  the manifest is put into the local registry and, when that succeeds, an entry for the
  repository is handed to the scheduler with \<open>repositoryTTL\<close> and the manifest is
  returned; when the put fails its error is returned and nothing is scheduled.
\<close>

theorem proxy_GetByTag_cases:
  "(ms_GetByTag (remoteManifests pms) tag (remote_state w) = Inl err
      \<longrightarrow> proxyManifestStore_GetByTag pms tag w = (Inl err, w))
   \<and> (ms_GetByTag (remoteManifests pms) tag (remote_state w) = Inr sm
        \<and> Payload pms sm = Inr payload \<and> FromBytes pms payload = Inr dgst
        \<and> ms_Exists (localManifests pms) dgst (local_state w) = Inr True
      \<longrightarrow> proxyManifestStore_GetByTag pms tag w = (Inr sm, w))
   \<and> (ms_GetByTag (remoteManifests pms) tag (remote_state w) = Inr sm
        \<and> Payload pms sm = Inr payload \<and> FromBytes pms payload = Inr dgst
        \<and> ms_Exists (localManifests pms) dgst (local_state w) = Inr False
        \<and> ms_Put (localManifests pms) sm (local_state w) = (None, l')
      \<longrightarrow> proxyManifestStore_GetByTag pms tag w
            = (Inr sm, w\<lparr>local_state := l',
                           scheduled := scheduled w @ [(repositoryName pms, repositoryTTL)]\<rparr>))
   \<and> (ms_GetByTag (remoteManifests pms) tag (remote_state w) = Inr sm
        \<and> Payload pms sm = Inr payload \<and> FromBytes pms payload = Inr dgst
        \<and> ms_Exists (localManifests pms) dgst (local_state w) = Inr False
        \<and> ms_Put (localManifests pms) sm (local_state w) = (Some err, l')
      \<longrightarrow> proxyManifestStore_GetByTag pms tag w = (Inl err, w\<lparr>local_state := l'\<rparr>))"
  by (simp add: proxyManifestStore_GetByTag_def AddManifest_def)

theorem proxy_GetByTag_cases_witness:
  "ms_GetByTag (remoteManifests example_proxy) ''gone'' (remote_state warm_world)
       = Inl (errorString ''unknown manifest'')
   \<and> proxyManifestStore_GetByTag example_proxy ''gone'' warm_world
       = (Inl (errorString ''unknown manifest''), warm_world)
   \<and> ms_GetByTag (remoteManifests example_proxy) ''latest'' (remote_state warm_world) = Inr ''aa''
   \<and> ms_Exists (localManifests example_proxy) ''sha256:aa'' (local_state warm_world) = Inr True
   \<and> proxyManifestStore_GetByTag example_proxy ''latest'' warm_world = (Inr ''aa'', warm_world)
   \<and> ms_Exists (localManifests example_proxy) ''sha256:aa'' (local_state cold_world) = Inr False
   \<and> ms_Put (localManifests example_proxy) ''aa'' (local_state cold_world)
       = (None, local_state warm_world)
   \<and> proxyManifestStore_GetByTag example_proxy ''latest'' cold_world = (Inr ''aa'', warm_world)
   \<and> ms_Put (localManifests readonly_proxy) ''aa'' (local_state cold_world)
       = (Some (errorString ''read only''), local_state cold_world)
   \<and> proxyManifestStore_GetByTag readonly_proxy ''latest'' cold_world
       = (Inl (errorString ''read only''), cold_world)"
proof -
  have a1: "ms_GetByTag (remoteManifests example_proxy) ''gone'' (remote_state warm_world)
       = Inl (errorString ''unknown manifest'')"
    by (simp add: proxy_eval)
  have b1: "ms_GetByTag (remoteManifests example_proxy) ''latest'' (remote_state warm_world) = Inr ''aa''"
    by (simp add: proxy_eval)
  have b1': "ms_GetByTag (remoteManifests example_proxy) ''latest'' (remote_state cold_world) = Inr ''aa''"
    by (simp add: proxy_eval)
  have b2: "Payload example_proxy ''aa'' = Inr ''aa''" by (simp add: proxy_eval)
  have b3: "FromBytes example_proxy ''aa'' = Inr ''sha256:aa''" by (simp add: proxy_eval)
  have b4: "ms_Exists (localManifests example_proxy) ''sha256:aa'' (local_state warm_world) = Inr True"
    by (simp add: proxy_eval)
  have c4: "ms_Exists (localManifests example_proxy) ''sha256:aa'' (local_state cold_world) = Inr False"
    by (simp add: proxy_eval)
  have c5: "ms_Put (localManifests example_proxy) ''aa'' (local_state cold_world)
       = (None, local_state warm_world)"
    by (simp add: proxy_eval)
  note r1 = proxy_GetByTag_cases[where pms=example_proxy and tag="''gone''" and w=warm_world
      and err="errorString ''unknown manifest''", THEN conjunct1, rule_format, OF a1]
  note r2 = proxy_GetByTag_cases[where pms=example_proxy and tag="''latest''" and w=warm_world
      and sm="''aa''" and payload="''aa''" and dgst="''sha256:aa''",
      THEN conjunct2, THEN conjunct1, rule_format, OF conjI[OF b1 conjI[OF b2 conjI[OF b3 b4]]]]
  note r3 = proxy_GetByTag_cases[where pms=example_proxy and tag="''latest''" and w=cold_world
      and sm="''aa''" and payload="''aa''" and dgst="''sha256:aa''" and l'="local_state warm_world",
      THEN conjunct2, THEN conjunct2, THEN conjunct1, rule_format,
      OF conjI[OF b1' conjI[OF b2 conjI[OF b3 conjI[OF c4 c5]]]]]
  have d1: "ms_GetByTag (remoteManifests readonly_proxy) ''latest'' (remote_state cold_world) = Inr ''aa''"
    by (simp add: proxy_eval)
  have d2: "Payload readonly_proxy ''aa'' = Inr ''aa''" by (simp add: proxy_eval)
  have d3: "FromBytes readonly_proxy ''aa'' = Inr ''sha256:aa''" by (simp add: proxy_eval)
  have d4: "ms_Exists (localManifests readonly_proxy) ''sha256:aa'' (local_state cold_world) = Inr False"
    by (simp add: proxy_eval)
  have d5: "ms_Put (localManifests readonly_proxy) ''aa'' (local_state cold_world)
       = (Some (errorString ''read only''), local_state cold_world)"
    by (simp add: proxy_eval)
  note r4 = proxy_GetByTag_cases[where pms=readonly_proxy and tag="''latest''" and w=cold_world
      and sm="''aa''" and payload="''aa''" and dgst="''sha256:aa''" and l'="local_state cold_world"
      and err="errorString ''read only''",
      THEN conjunct2, THEN conjunct2, THEN conjunct2, rule_format,
      OF conjI[OF d1 conjI[OF d2 conjI[OF d3 conjI[OF d4 d5]]]]]
  have e: "cold_world\<lparr>local_state := local_state warm_world,
             scheduled := scheduled cold_world @ [(repositoryName example_proxy, repositoryTTL)]\<rparr>
           = warm_world"
    by (simp add: proxy_eval)
  have e': "cold_world\<lparr>local_state := local_state cold_world\<rparr> = cold_world"
    by simp
  show ?thesis using a1 r1 b1 b4 r2 c4 c5 r3 e d5 r4 e' by simp
qed

text \<open>
  C4. \<^verbatim>\<open>Get(d)\<close> of the proxy returns the local manifest when the local registry has it,
  without touching anything. When the local lookup fails, the manifest is fetched from
  the remote registry, put into the local one, and an entry for the repository is
  handed to the scheduler with \<open>repositoryTTL\<close>, which is ten minutes,
  600000000000 nanoseconds; an error of the remote registry is returned as it is.
\<close>

theorem proxy_Get_cases:
  "(ms_Get (localManifests pms) dgst (local_state w) = Inr sm
      \<longrightarrow> proxyManifestStore_Get pms dgst w = (Inr sm, w))
   \<and> (ms_Get (localManifests pms) dgst (local_state w) = Inl err
        \<and> ms_Get (remoteManifests pms) dgst (remote_state w) = Inr sm
        \<and> ms_Put (localManifests pms) sm (local_state w) = (None, l')
      \<longrightarrow> proxyManifestStore_Get pms dgst w
            = (Inr sm, w\<lparr>local_state := l',
                           scheduled := scheduled w @ [(repositoryName pms, repositoryTTL)]\<rparr>))
   \<and> (ms_Get (localManifests pms) dgst (local_state w) = Inl err
        \<and> ms_Get (remoteManifests pms) dgst (remote_state w) = Inl err'
      \<longrightarrow> proxyManifestStore_Get pms dgst w = (Inl err', w))
   \<and> repositoryTTL = 10 * Minute
   \<and> repositoryTTL = 10 * 60 * 1000000000 * Nanosecond"
  by (simp add: proxyManifestStore_Get_def AddManifest_def
      repositoryTTL_def Minute_def Second_def Millisecond_def Microsecond_def Nanosecond_def)

theorem proxy_Get_cases_witness:
  "ms_Get (localManifests example_proxy) ''sha256:aa'' (local_state warm_world) = Inr ''aa''
   \<and> proxyManifestStore_Get example_proxy ''sha256:aa'' warm_world = (Inr ''aa'', warm_world)
   \<and> ms_Get (localManifests example_proxy) ''sha256:aa'' (local_state cold_world)
       = Inl (errorString ''unknown manifest'')
   \<and> ms_Get (remoteManifests example_proxy) ''sha256:aa'' (remote_state cold_world) = Inr ''aa''
   \<and> ms_Put (localManifests example_proxy) ''aa'' (local_state cold_world)
       = (None, local_state warm_world)
   \<and> proxyManifestStore_Get example_proxy ''sha256:aa'' cold_world = (Inr ''aa'', warm_world)
   \<and> scheduled warm_world = [(''app'', 600000000000)]
   \<and> ms_Get (remoteManifests example_proxy) ''sha256:cc'' (remote_state cold_world)
       = Inl (errorString ''unknown manifest'')
   \<and> proxyManifestStore_Get example_proxy ''sha256:cc'' cold_world
       = (Inl (errorString ''unknown manifest''), cold_world)"
proof -
  have a1: "ms_Get (localManifests example_proxy) ''sha256:aa'' (local_state warm_world) = Inr ''aa''"
    by (simp add: proxy_eval)
  have b1: "ms_Get (localManifests example_proxy) ''sha256:aa'' (local_state cold_world)
       = Inl (errorString ''unknown manifest'')"
    by (simp add: proxy_eval)
  have b2: "ms_Get (remoteManifests example_proxy) ''sha256:aa'' (remote_state cold_world) = Inr ''aa''"
    by (simp add: proxy_eval)
  have b3: "ms_Put (localManifests example_proxy) ''aa'' (local_state cold_world)
       = (None, local_state warm_world)"
    by (simp add: proxy_eval)
  note r1 = proxy_Get_cases[where pms=example_proxy and dgst="''sha256:aa''" and w=warm_world
      and sm="''aa''", THEN conjunct1, rule_format, OF a1]
  note r2 = proxy_Get_cases[where pms=example_proxy and dgst="''sha256:aa''" and w=cold_world
      and sm="''aa''" and err="errorString ''unknown manifest''" and l'="local_state warm_world",
      THEN conjunct2, THEN conjunct1, rule_format, OF conjI[OF b1 conjI[OF b2 b3]]]
  have e: "cold_world\<lparr>local_state := local_state warm_world,
             scheduled := scheduled cold_world @ [(repositoryName example_proxy, repositoryTTL)]\<rparr>
           = warm_world"
    by (simp add: proxy_eval)
  have s: "scheduled warm_world = [(''app'', 600000000000)]" by (simp add: proxy_eval)
  have c1: "ms_Get (localManifests example_proxy) ''sha256:cc'' (local_state cold_world)
       = Inl (errorString ''unknown manifest'')"
    by (simp add: proxy_eval)
  have c2: "ms_Get (remoteManifests example_proxy) ''sha256:cc'' (remote_state cold_world)
       = Inl (errorString ''unknown manifest'')"
    by (simp add: proxy_eval)
  note r3 = proxy_Get_cases[where pms=example_proxy and dgst="''sha256:cc''" and w=cold_world
      and err="errorString ''unknown manifest''" and err'="errorString ''unknown manifest''",
      THEN conjunct2, THEN conjunct2, THEN conjunct1, rule_format, OF conjI[OF c1 c2]]
  show ?thesis using a1 r1 b1 b2 b3 r2 e s c2 r3 by simp
qed

end
